theory Spec2Isabelle
  imports Main "HOL-Library.Word" "HOL-Library.Sublist"
begin

section \<open>Organization config handlers (package server)\<close>

subsection \<open>Data\<close>

text \<open>
  The structs of package chronograf that \<open>org_config.go\<close> reads: a log viewer config is a
  list of columns, a column has a name, an \<open>int32\<close> position and a list of encodings, an
  encoding has a type, a value and a name.
\<close>

record ColumnEncoding =
  enc_Type :: string
  enc_Value :: string
  enc_Name :: string

record LogViewerColumn =
  col_Name :: string
  col_Position :: "32 word"
  col_Encodings :: "ColumnEncoding list"

record LogViewerConfig =
  Columns :: "LogViewerColumn list"

record OrganizationConfig =
  OrganizationID :: string
  LogViewer :: LogViewerConfig

record logViewerConfigResponse =
  Links_Self :: string
  Embedded_LogViewerConfig :: LogViewerConfig

definition newLogViewerConfigResponse :: "LogViewerConfig \<Rightarrow> logViewerConfigResponse" where
  "newLogViewerConfigResponse lv =
     \<lparr>Links_Self = ''/chronograf/v1/org_config/logviewer'', Embedded_LogViewerConfig = lv\<rparr>"

subsection \<open>validLogViewerConfig\<close>

text \<open>
  The inner loop over the encodings of one column. The accumulator is
  \<open>(iconCount, textCount, visibility)\<close>; an invalid visibility value returns at once.
\<close>

fun encodings_loop ::
  "string \<Rightarrow> ColumnEncoding list \<Rightarrow> int \<times> int \<times> int \<Rightarrow> string + int \<times> int \<times> int" where
  "encodings_loop name [] acc = Inr acc"
| "encodings_loop name (e # es) (iconCount, textCount, visibility) =
     (let visibility' = (if enc_Type e = ''visibility'' then visibility + 1 else visibility) in
      if enc_Type e = ''visibility'' \<and> \<not> (enc_Value e = ''visible'' \<or> enc_Value e = ''hidden'')
      then Inl (''Invalid log viewer config: invalid visibility in column '' @ name)
      else
        let (iconCount', textCount') =
              (if name = ''severity''
               then (if enc_Value e = ''icon'' then (iconCount + 1, textCount)
                     else if enc_Value e = ''text'' then (iconCount, textCount + 1)
                     else (iconCount, textCount))
               else (iconCount, textCount))
        in encodings_loop name es (iconCount', textCount', visibility'))"

text \<open>
  The outer loop over the columns, threading the two maps \<open>nameMatcher\<close> and
  \<open>positionMatcher\<close>. \<open>None\<close> is Go's \<open>nil\<close> error.
\<close>

fun columns_loop ::
  "(string \<rightharpoonup> bool) \<Rightarrow> (32 word \<rightharpoonup> bool) \<Rightarrow> LogViewerColumn list \<Rightarrow> string option" where
  "columns_loop nameMatcher positionMatcher [] = None"
| "columns_loop nameMatcher positionMatcher (clm # clms) =
     (if nameMatcher (col_Name clm) \<noteq> None
      then Some (''Invalid log viewer config: Duplicate column name '' @ col_Name clm)
      else
        let nameMatcher' = nameMatcher(col_Name clm \<mapsto> True) in
        if positionMatcher (col_Position clm) \<noteq> None
        then Some ''Invalid log viewer config: Multiple columns with same position value''
        else
          let positionMatcher' = positionMatcher(col_Position clm \<mapsto> True) in
          case encodings_loop (col_Name clm) (col_Encodings clm) (0, 0, 0) of
            Inl err \<Rightarrow> Some err
          | Inr (iconCount, textCount, visibility) \<Rightarrow>
              if visibility \<noteq> 1
              then Some (''Invalid log viewer config: missing visibility encoding in column ''
                         @ col_Name clm)
              else if col_Name clm = ''severity''
                      \<and> (iconCount + textCount = 0 \<or> iconCount > 1 \<or> textCount > 1)
              then Some (''Invalid log viewer config: invalid number of severity format encodings in column ''
                         @ col_Name clm)
              else columns_loop nameMatcher' positionMatcher' clms)"

definition validLogViewerConfig :: "LogViewerConfig \<Rightarrow> string option" where
  "validLogViewerConfig cfg =
     (if length (Columns cfg) = 0
      then Some ''Invalid log viewer config: must have at least 1 column''
      else columns_loop Map.empty Map.empty (Columns cfg))"

subsection \<open>ReplaceLogViewerOrganizationConfig\<close>

text \<open>
  The store behind \<open>s.Store.OrganizationConfig(ctx)\<close> is an interface: its two methods are
  parameters, acting on a store state of any type. \<open>FindOrCreate\<close> returns an error or a
  config pointer (\<open>None\<close> is the nil pointer). The request is the organization id found
  on the context (if any) and the body; the JSON decoder of the body is a parameter.
\<close>

record 'st OrganizationConfigStore =
  FindOrCreate :: "string \<Rightarrow> 'st \<Rightarrow> (string + OrganizationConfig option) \<times> 'st"
  Update :: "OrganizationConfig \<Rightarrow> 'st \<Rightarrow> string option \<times> 'st"

record org_request =
  hasOrganizationContext :: "string option"
  Body :: string

datatype store_call = FindOrCreate_call string | Update_call OrganizationConfig

text \<open>What the handler sends: one of the four response helpers it calls.\<close>

datatype org_response =
    Error nat string
  | invalidJSON
  | unknownErrorWithMessage string
  | encodeJSON nat logViewerConfigResponse

definition StatusBadRequest :: nat where "StatusBadRequest = 400"
definition StatusOK :: nat where "StatusOK = 200"

record 'st org_outcome =
  response :: org_response
  store :: 'st
  store_calls :: "store_call list"

definition ReplaceLogViewerOrganizationConfig ::
  "(string \<Rightarrow> string + LogViewerConfig) \<Rightarrow> 'st OrganizationConfigStore \<Rightarrow> 'st \<Rightarrow> org_request
     \<Rightarrow> 'st org_outcome" where
  "ReplaceLogViewerOrganizationConfig Decode s st r =
     (case hasOrganizationContext r of
        None \<Rightarrow>
          \<lparr>response = Error StatusBadRequest ''Organization not found on context'',
           store = st, store_calls = []\<rparr>
      | Some orgID \<Rightarrow>
          (case Decode (Body r) of
             Inl err \<Rightarrow> \<lparr>response = invalidJSON, store = st, store_calls = []\<rparr>
           | Inr logViewerConfig \<Rightarrow>
               (case validLogViewerConfig logViewerConfig of
                  Some err \<Rightarrow>
                    \<lparr>response = Error StatusBadRequest err, store = st, store_calls = []\<rparr>
                | None \<Rightarrow>
                    (case FindOrCreate s orgID st of
                       (Inl err, st1) \<Rightarrow>
                         \<lparr>response = Error StatusBadRequest err, store = st1,
                          store_calls = [FindOrCreate_call orgID]\<rparr>
                     | (Inr None, st1) \<Rightarrow>
                         \<lparr>response = Error StatusBadRequest
                                       ''Organization configuration object was nil'',
                          store = st1, store_calls = [FindOrCreate_call orgID]\<rparr>
                     | (Inr (Some config), st1) \<Rightarrow>
                         (let config' = config\<lparr>LogViewer := logViewerConfig\<rparr>;
                              res = newLogViewerConfigResponse (LogViewer config')
                          in case Update s config' st1 of
                               (Some err, st2) \<Rightarrow>
                                 \<lparr>response = unknownErrorWithMessage err, store = st2,
                                  store_calls = [FindOrCreate_call orgID, Update_call config']\<rparr>
                             | (None, st2) \<Rightarrow>
                                 \<lparr>response = encodeJSON StatusOK res, store = st2,
                                  store_calls = [FindOrCreate_call orgID, Update_call config']\<rparr>)))))"

text \<open>Whether a response is one of the error reports (anything but the 200 answer).\<close>

fun is_error_response :: "org_response \<Rightarrow> bool" where
  "is_error_response (encodeJSON code res) = False"
| "is_error_response other = True"

section \<open>Backup handler (package http)\<close>

type_synonym byte = "8 word"

subsection \<open>Errors\<close>

text \<open>
  A Go \<open>error\<close> value is \<open>error option\<close>, \<open>None\<close> being \<open>nil\<close>. A single error is
  one cause; the aggregate of package multierr is a flat list of causes.
\<close>

datatype num_err = ErrSyntax | ErrRange

datatype cause =
    Failure string
  | NumError string string num_err
  | StatusError nat
  | PathError string string string
  | ErrShortWrite
  | Panic string

datatype error = Single cause | multiError "cause list"

fun errors_of :: "error \<Rightarrow> cause list" where
  "errors_of (Single c) = [c]"
| "errors_of (multiError cs) = cs"

text \<open>
  \<open>multierr.Append\<close>: nil on either side gives the other side; two errors give the
  aggregate of the causes of the left followed by the causes of the right.
\<close>

fun multierr_Append :: "error option \<Rightarrow> error option \<Rightarrow> error option" where
  "multierr_Append None right = right"
| "multierr_Append left None = left"
| "multierr_Append (Some l) (Some r) = Some (multiError (errors_of l @ errors_of r))"

subsection \<open>Paths and numbers of the standard library\<close>

fun split_on :: "char \<Rightarrow> string \<Rightarrow> string list" where
  "split_on c [] = [[]]"
| "split_on c (x # xs) =
     (if x = c then [] # split_on c xs
      else (case split_on c xs of [] \<Rightarrow> [[x]] | y # ys \<Rightarrow> (x # y) # ys))"

fun join_with :: "string \<Rightarrow> string list \<Rightarrow> string" where
  "join_with sep [] = []"
| "join_with sep [e] = e"
| "join_with sep (e # es) = e @ sep @ join_with sep es"

text \<open>
  \<open>filepath.Clean\<close> on the elements of a path: empty elements and \<open>.\<close> are dropped, \<open>..\<close>
  removes the element before it, is dropped at the root, and is kept at the start of a
  path that is not rooted.
\<close>

fun clean_elems :: "bool \<Rightarrow> string list \<Rightarrow> string list \<Rightarrow> string list" where
  "clean_elems rooted out [] = out"
| "clean_elems rooted out (e # es) =
     (if e = [] \<or> e = ''.'' then clean_elems rooted out es
      else if e = ''..'' then
        (if out \<noteq> [] \<and> last out \<noteq> ''..'' then clean_elems rooted (butlast out) es
         else if rooted then clean_elems rooted out es
         else clean_elems rooted (out @ [''..'']) es)
      else clean_elems rooted (out @ [e]) es)"

definition Clean :: "string \<Rightarrow> string" where
  "Clean path =
     (case path of
        [] \<Rightarrow> ''.''
      | c # cs \<Rightarrow>
          (let rooted = (c = CHR ''/'');
               out = join_with ''/'' (clean_elems rooted [] (split_on CHR ''/'' path))
           in if rooted then CHR ''/'' # out else if out = [] then ''.'' else out))"

text \<open>\<open>filepath.Join\<close>: leading empty elements are skipped, the rest is joined and cleaned.\<close>

fun Join :: "string list \<Rightarrow> string" where
  "Join [] = []"
| "Join (e # es) = (if e = [] then Join es else Clean (join_with ''/'' (e # es)))"

declare Join.simps [simp del]

fun decimal :: "nat \<Rightarrow> string" where
  "decimal n = (if n < 10 then [''0123456789'' ! n]
                else decimal (n div 10) @ [''0123456789'' ! (n mod 10)])"

declare decimal.simps [simp del]

text \<open>\<open>fmt.Sprint\<close> of an \<open>int\<close>.\<close>

definition Sprint :: "int \<Rightarrow> string" where
  "Sprint i = (if i < 0 then CHR ''-'' # decimal (nat (- i)) else decimal (nat i))"

definition is_digit :: "char \<Rightarrow> bool" where
  "is_digit ch = (48 \<le> (of_char ch :: nat) \<and> (of_char ch :: nat) \<le> 57)"

text \<open>
  The digit loop of \<open>strconv.ParseUint\<close> in base 10: it stops at the first byte that is
  not a digit with a syntax error, and at the first digit that takes the value beyond
  \<open>2^64 - 1\<close> with a range error.
\<close>

fun parse_digits :: "int \<Rightarrow> string \<Rightarrow> num_err + int" where
  "parse_digits n [] = Inr n"
| "parse_digits n (ch # s) =
     (if \<not> is_digit ch then Inl ErrSyntax
      else let n1 = n * 10 + (of_char ch - 48)
           in if n1 > 2 ^ 64 - 1 then Inl ErrRange else parse_digits n1 s)"

text \<open>
  \<open>strconv.Atoi\<close> for the 64-bit \<open>int\<close>: an optional sign, then one or more decimal
  digits; anything else is a syntax error, a value outside \<open>[-2^63, 2^63 - 1]\<close> a range
  error. The error names the function and the input.
\<close>

definition Atoi :: "string \<Rightarrow> cause + int" where
  "Atoi s0 =
     (let neg = (s0 \<noteq> [] \<and> hd s0 = CHR ''-'');
          s = (if s0 \<noteq> [] \<and> (hd s0 = CHR ''-'' \<or> hd s0 = CHR ''+'') then tl s0 else s0)
      in if s = [] then Inl (NumError ''Atoi'' s0 ErrSyntax)
         else
           (case parse_digits 0 s of
              Inl e \<Rightarrow> Inl (NumError ''Atoi'' s0 e)
            | Inr un \<Rightarrow>
                if \<not> neg \<and> un \<ge> 2 ^ 63 then Inl (NumError ''Atoi'' s0 ErrRange)
                else if neg \<and> un > 2 ^ 63 then Inl (NumError ''Atoi'' s0 ErrRange)
                else Inr (if neg then - un else un)))"

subsection \<open>The handler's world\<close>

text \<open>
  The file system maps a path to the content of the file there. Symbolic links aside, a
  path names what its cleaned form names, so two paths are compared by their elements
  after \<open>filepath.Clean\<close>: a final slash, a doubled slash or a \<open>.\<close> element makes no
  difference. A path is inside a directory when it is the directory or lies below it.
\<close>

type_synonym filesystem = "string \<rightharpoonup> byte list"

definition elements :: "string \<Rightarrow> bool \<times> string list" where
  "elements path =
     (let rooted = (path \<noteq> [] \<and> hd path = CHR ''/'')
      in (rooted, clean_elems rooted [] (split_on CHR ''/'' path)))"

definition inside :: "string \<Rightarrow> string \<Rightarrow> bool" where
  "inside dir p =
     (fst (elements dir) = fst (elements p) \<and> prefix (snd (elements dir)) (snd (elements p)))"

text \<open>
  What the environment decides is whether an operation fails: opening a file, removing a
  tree, writing to the response.
\<close>

record os_env =
  OpenFile_fault :: "string \<Rightarrow> error option"
  RemoveAll_fault :: "string \<Rightarrow> error option"
  Write_fault :: "error option"

text \<open>
  \<open>os.OpenFile\<close> with \<open>O_CREATE|O_TRUNC|O_WRONLY\<close>: the empty name is no file; otherwise
  the call fails when the environment says so, and else leaves an empty file.
\<close>

definition OpenFile_result :: "os_env \<Rightarrow> string \<Rightarrow> error option" where
  "OpenFile_result os name =
     (if name = [] then Some (Single (PathError ''open'' name ''no such file or directory''))
      else OpenFile_fault os name)"

definition os_OpenFile :: "os_env \<Rightarrow> string \<Rightarrow> filesystem \<Rightarrow> (error + string) \<times> filesystem" where
  "os_OpenFile os name fs =
     (case OpenFile_result os name of
        Some err \<Rightarrow> (Inl err, fs)
      | None \<Rightarrow> (Inr name, fs(name \<mapsto> [])))"

text \<open>
  \<open>os.RemoveAll\<close>. For the empty path it returns nil and removes nothing. A path that is
  \<open>.\<close> or ends in \<open>/.\<close> is refused as an invalid argument, and nothing is removed. For
  any other path the call fails when the environment says so (and then the model removes
  nothing); else it removes everything inside the path. It then returns nil, unless the
  path is one whose directory itself cannot be removed, because it is the root or its
  last element is \<open>.\<close> or \<open>..\<close>: then the content is removed and the error of the final
  \<open>rmdir\<close> is returned.
\<close>

definition endsWithDot :: "string \<Rightarrow> bool" where
  "endsWithDot path =
     (case rev path of
        [] \<Rightarrow> False
      | [c] \<Rightarrow> c = CHR ''.''
      | c # d # cs \<Rightarrow> c = CHR ''.'' \<and> d = CHR ''/'')"

definition undeletable :: "string \<Rightarrow> string option" where
  "undeletable path =
     (let names = filter (\<lambda>e. e \<noteq> []) (split_on CHR ''/'' path)
      in if names = [] then Some ''device or resource busy''
         else if last names = ''.'' then Some ''invalid argument''
         else if last names = ''..'' then Some ''directory not empty''
         else None)"

definition RemoveAll_result :: "os_env \<Rightarrow> string \<Rightarrow> error option" where
  "RemoveAll_result os path =
     (if path = [] then None
      else if endsWithDot path
      then Some (Single (PathError ''RemoveAll'' path ''invalid argument''))
      else (case RemoveAll_fault os path of
              Some err \<Rightarrow> Some err
            | None \<Rightarrow>
                (case undeletable path of
                   Some errno \<Rightarrow> Some (Single (PathError ''unlinkat'' path errno))
                 | None \<Rightarrow> None)))"

definition os_RemoveAll :: "os_env \<Rightarrow> string \<Rightarrow> filesystem \<Rightarrow> error option \<times> filesystem" where
  "os_RemoveAll os path fs =
     (RemoveAll_result os path,
      (if path = [] \<or> endsWithDot path \<or> RemoveAll_fault os path \<noteq> None then fs
       else (\<lambda>p. if inside path p then None else fs p)))"

text \<open>
  JSON values, and the encoding of the \<open>backup\<close> struct: both fields are tagged
  \<open>omitempty\<close>, so a zero \<open>ID\<close> and an empty \<open>Files\<close> are left out of the object.
\<close>

datatype json = JNum int | JStr string | JArr "json list" | JObj "(string \<times> json) list"

record backup =
  ID :: int
  Files :: "string list"

definition encode_backup :: "backup \<Rightarrow> json" where
  "encode_backup b =
     JObj ((if ID b = 0 then [] else [(''id'', JNum (ID b))])
           @ (if Files b = [] then [] else [(''files'', JArr (map JStr (Files b)))]))"

fun json_field :: "json \<Rightarrow> string \<Rightarrow> json option" where
  "json_field (JObj kvs) k = map_of kvs k"
| "json_field other k = None"

text \<open>
  What reaches the response writer, in order: a JSON document, raw bytes, or the error
  that \<open>HandleHTTPError\<close> renders.
\<close>

datatype written = Document json | Bytes "byte list" | HTTPError error

datatype call =
    CreateBackup_call
  | OpenFile_call string
  | Backup_call string
  | RemoveAll_call string
  | Encode_call backup
  | FetchBackupFile_call int string
  | HandleHTTPError_call "error option"

text \<open>
  The services of the handler are interfaces, so their behaviour is a parameter:
  \<open>CreateBackup\<close> acts on the file system and returns an error or the id and the shard
  file names; \<open>KVBackup\<close> is the bytes the metadata snapshot writes and the error it ends
  with, if any; \<open>FetchBackupFile\<close> acts on the response writer.
\<close>

record BackupHandler =
  svc_CreateBackup :: "filesystem \<Rightarrow> (error + int \<times> string list) \<times> filesystem"
  svc_InternalBackupPath :: "int \<Rightarrow> string"
  svc_FetchBackupFile :: "int \<Rightarrow> string \<Rightarrow> written list \<Rightarrow> error option \<times> written list"
  kv_Backup :: "byte list \<times> error option"

record outcome =
  reported :: "error option"
  manifest :: "backup option"
  fs_after :: filesystem
  body_after :: "written list"
  calls :: "call list"

text \<open>\<open>HandleHTTPError\<close> renders an error into the response; it does nothing for \<open>nil\<close>.\<close>

definition HandleHTTPError :: "error option \<Rightarrow> written list \<Rightarrow> written list" where
  "HandleHTTPError err w = (case err of None \<Rightarrow> w | Some e \<Rightarrow> w @ [HTTPError e])"

text \<open>
  The three failure branches of \<open>handleCreate\<close> are the same three lines: aggregate the
  error with the result of \<open>os.RemoveAll\<close>, hand it to \<open>HandleHTTPError\<close>, return.
\<close>

definition rollback ::
  "os_env \<Rightarrow> string \<Rightarrow> error \<Rightarrow> filesystem \<Rightarrow> written list \<Rightarrow> call list \<Rightarrow> outcome" where
  "rollback os internalBackupPath err fs w cs =
     (let (rerr, fs') = os_RemoveAll os internalBackupPath fs;
          err' = multierr_Append (Some err) rerr
      in \<lparr>reported = err', manifest = None, fs_after = fs',
          body_after = HandleHTTPError err' w,
          calls = cs @ [RemoveAll_call internalBackupPath, HandleHTTPError_call err']\<rparr>)"

definition handleCreate ::
  "BackupHandler \<Rightarrow> os_env \<Rightarrow> string \<Rightarrow> filesystem \<Rightarrow> written list \<Rightarrow> outcome" where
  "handleCreate h os DefaultFilename fs w =
     (case svc_CreateBackup h fs of
        (Inl err, fs1) \<Rightarrow>
          \<lparr>reported = Some err, manifest = None, fs_after = fs1,
           body_after = HandleHTTPError (Some err) w,
           calls = [CreateBackup_call, HandleHTTPError_call (Some err)]\<rparr>
      | (Inr (id', files), fs1) \<Rightarrow>
          (let internalBackupPath = svc_InternalBackupPath h id';
               metaFilename = Join [internalBackupPath, DefaultFilename]
           in case os_OpenFile os metaFilename fs1 of
                (Inl err, fs2) \<Rightarrow>
                  rollback os internalBackupPath err fs2 w
                    [CreateBackup_call, OpenFile_call metaFilename]
              | (Inr metaFile, fs2) \<Rightarrow>
                  (let fs3 = fs2(metaFile \<mapsto> fst (kv_Backup h)) in
                   case snd (kv_Backup h) of
                     Some err \<Rightarrow>
                       rollback os internalBackupPath err fs3 w
                         [CreateBackup_call, OpenFile_call metaFilename, Backup_call metaFile]
                   | None \<Rightarrow>
                       (let files' = files @ [DefaultFilename];
                            b = \<lparr>ID = id', Files = files'\<rparr>
                        in case Write_fault os of
                             Some err \<Rightarrow>
                               rollback os internalBackupPath err fs3 w
                                 [CreateBackup_call, OpenFile_call metaFilename,
                                  Backup_call metaFile, Encode_call b]
                           | None \<Rightarrow>
                               \<lparr>reported = None, manifest = Some b, fs_after = fs3,
                                body_after = w @ [Document (encode_backup b)],
                                calls = [CreateBackup_call, OpenFile_call metaFilename,
                                         Backup_call metaFile, Encode_call b]\<rparr>))))"

text \<open>\<open>params.ByName\<close> of httprouter: the value of the first parameter of that name, or the empty string.\<close>

fun ByName :: "(string \<times> string) list \<Rightarrow> string \<Rightarrow> string" where
  "ByName [] name = []"
| "ByName ((k, v) # ps) name = (if k = name then v else ByName ps name)"

definition handleFetchFile ::
  "BackupHandler \<Rightarrow> (string \<times> string) list \<Rightarrow> filesystem \<Rightarrow> written list \<Rightarrow> outcome" where
  "handleFetchFile h params fs w =
     (case Atoi (ByName params ''backup_id'') of
        Inl c \<Rightarrow>
          \<lparr>reported = Some (Single c), manifest = None, fs_after = fs,
           body_after = HandleHTTPError (Some (Single c)) w,
           calls = [HandleHTTPError_call (Some (Single c))]\<rparr>
      | Inr backupID \<Rightarrow>
          (let backupFile = ByName params ''backup_file'' in
           case svc_FetchBackupFile h backupID backupFile w of
             (Some err, w1) \<Rightarrow>
               \<lparr>reported = Some err, manifest = None, fs_after = fs,
                body_after = HandleHTTPError (Some err) w1,
                calls = [FetchBackupFile_call backupID backupFile,
                         HandleHTTPError_call (Some err)]\<rparr>
           | (None, w1) \<Rightarrow>
               \<lparr>reported = None, manifest = None, fs_after = fs, body_after = w1,
                calls = [FetchBackupFile_call backupID backupFile]\<rparr>))"

text \<open>
  A plain file name, as the reserved metadata file name is: not empty, not \<open>.\<close> or
  \<open>..\<close>, and without a slash.
\<close>

definition plain_name :: "string \<Rightarrow> bool" where
  "plain_name name =
     (name \<noteq> [] \<and> name \<noteq> ''.'' \<and> name \<noteq> ''..'' \<and> CHR ''/'' \<notin> set name)"

text \<open>
  The shape of a cleaned list of elements: no element is empty, \<open>.\<close> or holds a slash,
  and \<open>..\<close> stands only at the front, and not at all in a rooted path.
\<close>

fun dotdots_first :: "string list \<Rightarrow> bool" where
  "dotdots_first [] = True"
| "dotdots_first (e # es) = (if e = ''..'' then dotdots_first es else ''..'' \<notin> set es)"

definition clean_list :: "bool \<Rightarrow> string list \<Rightarrow> bool" where
  "clean_list rooted es =
     ((\<forall>e \<in> set es. e \<noteq> [] \<and> e \<noteq> ''.'' \<and> CHR ''/'' \<notin> set e)
      \<and> dotdots_first es \<and> (rooted \<longrightarrow> ''..'' \<notin> set es))"

text \<open>
  What the specification calls a decimal integer, for comparison with \<open>Atoi\<close>: an
  optional sign followed by one or more decimal digits.
\<close>

definition decimal_integer :: "string \<Rightarrow> bool" where
  "decimal_integer s =
     (let ds = (case s of [] \<Rightarrow> [] | c # cs \<Rightarrow> if c = CHR ''-'' \<or> c = CHR ''+'' then cs else s)
      in ds \<noteq> [] \<and> list_all is_digit ds)"

section \<open>Backup client (package http)\<close>

subsection \<open>Requests, clients, responses\<close>

record URL =
  Scheme :: string
  Host :: string
  Path :: string

datatype go_context = Background | Incoming string | Span go_context

record Request =
  Method :: string
  req_URL :: URL
  Credential :: "string option"
  req_Context :: go_context

record Client =
  cl_Scheme :: string
  cl_InsecureSkipVerify :: bool
  Timeout :: int

text \<open>
  A response body is a stream: the segments still to come, as the network delivers them,
  and the error the stream ends with, if it does not end well. \<open>Read\<close> with a buffer of
  \<open>n\<close> bytes returns at most \<open>n\<close> bytes of the first segment; at the end it returns
  \<open>io.EOF\<close> or the stream's error.
\<close>

record Reader =
  segments :: "byte list list"
  failure :: "cause option"

datatype read_error = EOF | ReadError cause

definition Read :: "nat \<Rightarrow> Reader \<Rightarrow> byte list \<times> read_error option \<times> Reader" where
  "Read n r =
     (case segments r of
        [] \<Rightarrow> ([], Some (case failure r of None \<Rightarrow> EOF | Some c \<Rightarrow> ReadError c), r)
      | s # rest \<Rightarrow>
          (take n s, None, r\<lparr>segments := (if drop n s = [] then rest else drop n s # rest)\<rparr>))"

record Response =
  StatusCode :: nat
  resp_Body :: Reader

text \<open>
  The sink \<open>w\<close>: the bytes written so far and, when it is bounded, the room left. A write
  that does not fit stores what fits and fails, or, for a sink that is \<open>silent\<close>, reports
  the short count with no error.
\<close>

record Sink =
  sink_bytes :: "byte list"
  room :: "nat option"
  silent :: bool

definition Write :: "byte list \<Rightarrow> Sink \<Rightarrow> nat \<times> error option \<times> Sink" where
  "Write p s =
     (case room s of
        None \<Rightarrow> (length p, None, s\<lparr>sink_bytes := sink_bytes s @ p\<rparr>)
      | Some k \<Rightarrow>
          if length p \<le> k
          then (length p, None, s\<lparr>sink_bytes := sink_bytes s @ p, room := Some (k - length p)\<rparr>)
          else (k, (if silent s then None else Some (Single (Failure ''write: no space left''))),
                s\<lparr>sink_bytes := sink_bytes s @ take k p, room := Some 0\<rparr>))"

definition remaining :: "Reader \<Rightarrow> nat" where
  "remaining r = sum_list (map (\<lambda>s. Suc (length s)) (segments r))"

lemma Read_remaining:
  "0 < n \<Longrightarrow> Read n r = (d, None, r') \<Longrightarrow> remaining r' < remaining r"
  by (auto simp: Read_def remaining_def split: list.splits if_splits)

text \<open>
  \<open>io.CopyBuffer\<close> with a buffer of \<open>n\<close> bytes: read, write what was read, stop at the
  first write error, short write or read error; \<open>io.EOF\<close> ends the copy with no error.
  An empty buffer panics.
\<close>

function copy_loop :: "nat \<Rightarrow> Reader \<Rightarrow> Sink \<Rightarrow> error option \<times> Sink" where
  "copy_loop n src dst =
     (if n = 0 then (Some (Single (Panic ''empty buffer in CopyBuffer'')), dst)
      else
        (case Read n src of
           (d, er, src') \<Rightarrow>
             (case (if d \<noteq> []
                    then (case Write d dst of
                            (nw, ew, dst') \<Rightarrow>
                              if ew \<noteq> None then (ew, dst', True)
                              else if length d \<noteq> nw then (Some (Single ErrShortWrite), dst', True)
                              else (None, dst', False))
                    else (None, dst, False)) of
                (err, dst1, stop) \<Rightarrow>
                  if stop then (err, dst1)
                  else (case er of
                          Some EOF \<Rightarrow> (None, dst1)
                        | Some (ReadError c) \<Rightarrow> (Some (Single c), dst1)
                        | None \<Rightarrow> copy_loop n src' dst1))))"
  by pat_completeness auto
termination
  by (relation "measure (\<lambda>(n, src, dst). remaining src)") (auto intro: Read_remaining [OF _ sym])

declare copy_loop.simps [simp del]

definition io_CopyBuffer :: "Sink \<Rightarrow> Reader \<Rightarrow> nat \<Rightarrow> error option \<times> Sink" where
  "io_CopyBuffer dst src n = copy_loop n src dst"

subsection \<open>Constants and helpers\<close>

definition backupPath :: string where
  "backupPath = ''/api/v2/backup''"

definition Nanosecond :: int where "Nanosecond = 1"
definition Microsecond :: int where "Microsecond = 1000 * Nanosecond"
definition Millisecond :: int where "Millisecond = 1000 * Microsecond"
definition Second :: int where "Second = 1000 * Millisecond"
definition Minute :: int where "Minute = 60 * Second"
definition Hour :: int where "Hour = 60 * Minute"

definition httpClientTimeout :: int where
  "httpClientTimeout = Hour"

definition composeBackupFilePath :: "int \<Rightarrow> string \<Rightarrow> string" where
  "composeBackupFilePath backupID backupFile =
     Join [backupPath, Sprint backupID, ''file'', backupFile]"

text \<open>
  What the client cannot decide by itself is a parameter: whether the address parses,
  whether building the request fails, what the network answers to a request, and what the
  JSON decoder makes of a body.
\<close>

record client_env =
  url_Parse :: "string \<Rightarrow> error + URL"
  NewRequest_fault :: "string \<Rightarrow> URL \<Rightarrow> error option"
  Do :: "Client \<Rightarrow> Request \<Rightarrow> error + Response"
  Decode_backup :: "Reader \<Rightarrow> error + backup"

text \<open>
  Modelled from the spec: \<open>NewURL\<close>, which the source calls and does not define. The
  request is addressed to the configured address, at the given path.
\<close>

definition NewURL :: "client_env \<Rightarrow> string \<Rightarrow> string \<Rightarrow> error + URL" where
  "NewURL env addr path =
     (case url_Parse env addr of Inl err \<Rightarrow> Inl err | Inr u \<Rightarrow> Inr (u\<lparr>Path := path\<rparr>))"

text \<open>\<open>http.NewRequest\<close> with no body: a request with the background context and no credential.\<close>

definition http_NewRequest :: "client_env \<Rightarrow> string \<Rightarrow> URL \<Rightarrow> error + Request" where
  "http_NewRequest env method u =
     (case NewRequest_fault env method u of
        Some err \<Rightarrow> Inl err
      | None \<Rightarrow> Inr \<lparr>Method = method, req_URL = u, Credential = None, req_Context = Background\<rparr>)"

text \<open>
  Modelled from the spec: \<open>SetToken\<close>, which the source calls and does not define. It
  applies the authentication credential to the request.
\<close>

definition SetToken :: "string \<Rightarrow> Request \<Rightarrow> Request" where
  "SetToken token req = req\<lparr>Credential := Some token\<rparr>"

text \<open>
  Modelled from the spec: \<open>NewClient\<close>, which the source calls and does not define. It
  returns a client for the scheme, with no timeout of its own.
\<close>

definition NewClient :: "string \<Rightarrow> bool \<Rightarrow> Client" where
  "NewClient scheme insecure =
     \<lparr>cl_Scheme = scheme, cl_InsecureSkipVerify = insecure, Timeout = 0\<rparr>"

text \<open>
  Modelled from the spec: \<open>CheckError\<close>, which the source calls and does not define. A
  response that is not a success is an error that tells its status; status 404 is the
  not-found condition.
\<close>

definition CheckError :: "Response \<Rightarrow> error option" where
  "CheckError resp =
     (if StatusCode resp div 100 = 2 then None else Some (Single (StatusError (StatusCode resp))))"

definition not_found :: "error option \<Rightarrow> bool" where
  "not_found err = (err = Some (Single (StatusError 404)))"

subsection \<open>The client\<close>

record BackupService =
  Addr :: string
  Token :: string
  InsecureSkipVerify :: bool

text \<open>
  Both methods return their result and the requests they handed to the network, each
  with the client that sent it.
\<close>

definition CreateBackup ::
  "client_env \<Rightarrow> BackupService \<Rightarrow> go_context
     \<Rightarrow> (error + int \<times> string list) \<times> (Client \<times> Request) list" where
  "CreateBackup env s ctx0 =
     (let ctx = Span ctx0 in
      case NewURL env (Addr s) backupPath of
        Inl err \<Rightarrow> (Inl err, [])
      | Inr u \<Rightarrow>
          (case http_NewRequest env ''POST'' u of
             Inl err \<Rightarrow> (Inl err, [])
           | Inr req0 \<Rightarrow>
               (let req1 = SetToken (Token s) req0;
                    req = req1\<lparr>req_Context := ctx\<rparr>;
                    hc0 = NewClient (Scheme u) (InsecureSkipVerify s);
                    hc = hc0\<lparr>Timeout := httpClientTimeout\<rparr>
                in case Do env hc req of
                     Inl err \<Rightarrow> (Inl err, [(hc, req)])
                   | Inr resp \<Rightarrow>
                       (case CheckError resp of
                          Some err \<Rightarrow> (Inl err, [(hc, req)])
                        | None \<Rightarrow>
                            (case Decode_backup env (resp_Body resp) of
                               Inl err \<Rightarrow> (Inl err, [(hc, req)])
                             | Inr b \<Rightarrow> (Inr (ID b, Files b), [(hc, req)]))))))"

definition FetchBackupFile ::
  "client_env \<Rightarrow> BackupService \<Rightarrow> go_context \<Rightarrow> int \<Rightarrow> string \<Rightarrow> Sink
     \<Rightarrow> (error option \<times> Sink) \<times> (Client \<times> Request) list" where
  "FetchBackupFile env s ctx0 backupID backupFile w =
     (case NewURL env (Addr s) (composeBackupFilePath backupID backupFile) of
        Inl err \<Rightarrow> ((Some err, w), [])
      | Inr u \<Rightarrow>
          (case http_NewRequest env ''GET'' u of
             Inl err \<Rightarrow> ((Some err, w), [])
           | Inr req0 \<Rightarrow>
               (let req = SetToken (Token s) req0;
                    hc0 = NewClient (Scheme u) (InsecureSkipVerify s);
                    hc = hc0\<lparr>Timeout := httpClientTimeout\<rparr>
                in case Do env hc req of
                     Inl err \<Rightarrow> ((Some err, w), [(hc, req)])
                   | Inr resp \<Rightarrow>
                       (case CheckError resp of
                          Some err \<Rightarrow> ((Some err, w), [(hc, req)])
                        | None \<Rightarrow>
                            (io_CopyBuffer w (resp_Body resp) (1024 * 1024), [(hc, req)])))))"

subsection \<open>The remote side\<close>

fun chunks :: "nat \<Rightarrow> byte list \<Rightarrow> byte list list" where
  "chunks k bs =
     (if bs = [] then []
      else if k = 0 then [bs]
      else take k bs # chunks k (drop k bs))"

declare chunks.simps [simp del]

text \<open>
  Modelled from the spec: the remote retrieval service, which is not in the source. It
  resolves the path of a \<open>GET\<close> request to a stored backup file and answers with the
  file's bytes, or with the not-found status when no file is stored at that path; the
  body of that reply is an error message, not a file. Either body is delivered in
  segments of \<open>k\<close> bytes.
\<close>

definition not_found_message :: "byte list" where
  "not_found_message = [110, 111, 116, 32, 102, 111, 117, 110, 100]"

definition backup_remote ::
  "(string \<rightharpoonup> byte list) \<Rightarrow> nat \<Rightarrow> Client \<Rightarrow> Request \<Rightarrow> error + Response" where
  "backup_remote stored k hc req =
     (case stored (Path (req_URL req)) of
        None \<Rightarrow>
          Inr \<lparr>StatusCode = 404,
               resp_Body = \<lparr>segments = chunks k not_found_message, failure = None\<rparr>\<rparr>
      | Some bs \<Rightarrow> Inr \<lparr>StatusCode = 200, resp_Body = \<lparr>segments = chunks k bs, failure = None\<rparr>\<rparr>)"

section \<open>Example environments\<close>

text \<open>
  Concrete collaborators, on which the theorems below are instantiated: a store that
  counts its calls, and a decoder that knows one body, a config with two columns named
  \<open>time\<close>.
\<close>

definition example_store :: "nat OrganizationConfigStore" where
  "example_store =
     \<lparr>FindOrCreate = (\<lambda>orgID st. (Inr None, Suc st)), Update = (\<lambda>config st. (None, Suc st))\<rparr>"

definition example_config :: LogViewerConfig where
  "example_config =
     \<lparr>Columns =
        [\<lparr>col_Name = ''time'', col_Position = 0,
          col_Encodings = [\<lparr>enc_Type = ''visibility'', enc_Value = ''visible'', enc_Name = []\<rparr>]\<rparr>,
         \<lparr>col_Name = ''time'', col_Position = 1,
          col_Encodings = [\<lparr>enc_Type = ''visibility'', enc_Value = ''hidden'', enc_Name = []\<rparr>]\<rparr>]\<rparr>"

definition example_Decode :: "string \<Rightarrow> string + LogViewerConfig" where
  "example_Decode body =
     (if body = ''two columns named time'' then Inr example_config
      else Inl ''unexpected end of JSON input'')"

definition example_request :: org_request where
  "example_request =
     \<lparr>hasOrganizationContext = Some ''default'', Body = ''two columns named time''\<rparr>"

text \<open>
  A backup handler whose engine allocates backup 1 with one shard file under
  \<open>/backups/1\<close>, and variants of it: a snapshot that fails (with the directory written
  with a final slash), an allocation that fails, an
  engine that hands out id 0, an engine that names a shard like the metadata file. An
  operating system where nothing fails, and one where removing a directory fails.
\<close>

definition example_handler :: BackupHandler where
  "example_handler =
     \<lparr>svc_CreateBackup =
        (\<lambda>fs. (Inr (1, [''000000001.s1'']), fs(''/backups/1/000000001.s1'' \<mapsto> [1, 2, 3]))),
      svc_InternalBackupPath = (\<lambda>backupID. ''/backups/'' @ Sprint backupID),
      svc_FetchBackupFile = (\<lambda>backupID backupFile w. (None, w @ [Bytes [1, 2, 3]])),
      kv_Backup = ([7, 7], None)\<rparr>"

definition failing_snapshot :: BackupHandler where
  "failing_snapshot =
     example_handler
       \<lparr>svc_InternalBackupPath := (\<lambda>backupID. ''/backups/'' @ Sprint backupID @ ''/''),
        kv_Backup := ([7], Some (Single (Failure ''snapshot'')))\<rparr>"

definition failing_allocation :: BackupHandler where
  "failing_allocation =
     example_handler\<lparr>svc_CreateBackup := (\<lambda>fs. (Inl (Single (Failure ''engine closed'')), fs))\<rparr>"

definition zero_id_handler :: BackupHandler where
  "zero_id_handler = example_handler\<lparr>svc_CreateBackup := (\<lambda>fs. (Inr (0, []), fs))\<rparr>"

definition meta_named_shard :: BackupHandler where
  "meta_named_shard =
     example_handler\<lparr>svc_CreateBackup := (\<lambda>fs. (Inr (1, [''influxd.bolt'']), fs))\<rparr>"

definition working_os :: os_env where
  "working_os =
     \<lparr>OpenFile_fault = (\<lambda>name. None), RemoveAll_fault = (\<lambda>path. None), Write_fault = None\<rparr>"

definition stuck_os :: os_env where
  "stuck_os = working_os\<lparr>RemoveAll_fault := (\<lambda>path. Some (Single (Failure ''directory busy'')))\<rparr>"

definition example_params :: "(string \<times> string) list" where
  "example_params = [(''backup_id'', ''12a''), (''backup_file'', ''influxd.bolt'')]"

text \<open>
  A remote that stores one file of backup 1 and delivers it in segments of two bytes, a
  client environment in front of it, a client, and a sink with no bound.
\<close>

definition example_files :: "string \<rightharpoonup> byte list" where
  "example_files = [''/api/v2/backup/1/file/influxd.bolt'' \<mapsto> [7, 7, 9]]"

definition example_env :: client_env where
  "example_env =
     \<lparr>url_Parse =
        (\<lambda>addr. if addr = ''http://localhost:9999''
                then Inr \<lparr>Scheme = ''http'', Host = ''localhost:9999'', Path = []\<rparr>
                else Inl (Single (Failure ''parse: missing protocol scheme''))),
      NewRequest_fault = (\<lambda>method u. None),
      Do = backup_remote example_files 2,
      Decode_backup = (\<lambda>body. Inl (Single (Failure ''unexpected end of JSON input'')))\<rparr>"

definition example_service :: BackupService where
  "example_service = \<lparr>Addr = ''http://localhost:9999'', Token = ''secret'', InsecureSkipVerify = False\<rparr>"

definition empty_sink :: Sink where
  "empty_sink = \<lparr>sink_bytes = [], room = None, silent = False\<rparr>"

section \<open>Theorems\<close>

subsection \<open>Organization config\<close>

lemma example_config_invalid:
  "validLogViewerConfig example_config
     = Some ''Invalid log viewer config: Duplicate column name time''"
  by (auto simp: validLogViewerConfig_def example_config_def Let_def)

text \<open>
  C10. In ReplaceLogViewerOrganizationConfig, when the body fails JSON decoding or
  validLogViewerConfig returns an error, the handler answers with an error (invalidJSON
  for the decoding failure, a 400 carrying the validation message otherwise), calls
  neither FindOrCreate nor Update, and leaves the store as it was.
\<close>

theorem ReplaceLogViewerOrganizationConfig_invalid:
  assumes "(\<exists>err. Decode (Body r) = Inl err)
           \<or> (\<exists>cfg err. Decode (Body r) = Inr cfg \<and> validLogViewerConfig cfg = Some err)"
  shows "store_calls (ReplaceLogViewerOrganizationConfig Decode s st r) = []
         \<and> store (ReplaceLogViewerOrganizationConfig Decode s st r) = st
         \<and> is_error_response (response (ReplaceLogViewerOrganizationConfig Decode s st r))
         \<and> (\<forall>orgID. hasOrganizationContext r = Some orgID \<longrightarrow>
              (\<forall>err. Decode (Body r) = Inl err \<longrightarrow>
                 response (ReplaceLogViewerOrganizationConfig Decode s st r) = invalidJSON)
              \<and> (\<forall>cfg err. Decode (Body r) = Inr cfg \<longrightarrow> validLogViewerConfig cfg = Some err \<longrightarrow>
                 response (ReplaceLogViewerOrganizationConfig Decode s st r)
                   = Error StatusBadRequest err))"
  using assms
  by (auto simp: ReplaceLogViewerOrganizationConfig_def split: option.splits sum.splits)

theorem ReplaceLogViewerOrganizationConfig_invalid_witness:
  "store_calls (ReplaceLogViewerOrganizationConfig example_Decode example_store 0 example_request) = []
   \<and> store (ReplaceLogViewerOrganizationConfig example_Decode example_store 0 example_request) = 0
   \<and> response (ReplaceLogViewerOrganizationConfig example_Decode example_store 0 example_request)
       = Error StatusBadRequest ''Invalid log viewer config: Duplicate column name time''"
  using ReplaceLogViewerOrganizationConfig_invalid [of example_Decode example_request example_store 0]
  by (simp add: example_Decode_def example_request_def example_config_invalid)

subsection \<open>Paths\<close>

lemma split_on_not_Nil: "split_on c s \<noteq> []"
  by (induction s) (auto split: list.splits)

lemma split_on_append: "split_on c (a @ c # b) = split_on c a @ split_on c b"
proof (induction a)
  case Nil
  then show ?case by simp
next
  case (Cons x a)
  then show ?case
    by (cases "split_on c a") (auto simp: split_on_not_Nil)
qed

lemma split_on_none: "c \<notin> set b \<Longrightarrow> split_on c b = [b]"
  by (induction b) auto

lemma split_on_no_sep: "e \<in> set (split_on c s) \<Longrightarrow> c \<notin> set e"
proof (induction s arbitrary: e)
  case Nil
  then show ?case by simp
next
  case (Cons x s)
  then show ?case
    by (cases "split_on c s") (auto simp: split_on_not_Nil split: if_splits)
qed

lemma split_on_join:
  "es \<noteq> [] \<Longrightarrow> \<forall>e \<in> set es. c \<notin> set e \<Longrightarrow> split_on c (join_with [c] es) = es"
proof (induction es)
  case Nil
  then show ?case by simp
next
  case (Cons e es)
  show ?case
  proof (cases es)
    case Nil
    then show ?thesis using Cons.prems by (simp add: split_on_none)
  next
    case (Cons e' es')
    then have "join_with [c] (e # es) = e @ c # join_with [c] es"
      by simp
    then show ?thesis
      using Cons.IH Cons.prems Cons by (simp add: split_on_append split_on_none)
  qed
qed

lemma join_with_hd:
  "es \<noteq> [] \<Longrightarrow> hd es \<noteq> [] \<Longrightarrow> join_with sep es \<noteq> [] \<and> hd (join_with sep es) = hd (hd es)"
  by (cases es; cases "tl es") auto

lemma clean_elems_append:
  "clean_elems r out (xs @ ys) = clean_elems r (clean_elems r out xs) ys"
  by (induction xs arbitrary: out) auto

lemma dotdots_first_snoc: "dotdots_first out \<Longrightarrow> e \<noteq> ''..'' \<Longrightarrow> dotdots_first (out @ [e])"
  by (induction out) auto

lemma dotdots_first_butlast: "dotdots_first out \<Longrightarrow> dotdots_first (butlast out)"
  by (induction out) (auto dest: in_set_butlastD)

lemma dotdots_first_dotdot:
  "dotdots_first out \<Longrightarrow> out = [] \<or> last out = ''..'' \<Longrightarrow> dotdots_first (out @ [''..''])"
proof (induction out)
  case Nil
  then show ?case by simp
next
  case (Cons e out)
  show ?case
  proof (cases "e = ''..''")
    case True
    then show ?thesis
      using Cons by (auto split: if_splits)
  next
    case False
    then have "''..'' \<notin> set (e # out)"
      using Cons.prems(1) by simp
    moreover have "last (e # out) \<in> set (e # out)"
      by (rule last_in_set) simp
    ultimately show ?thesis
      using Cons.prems(2) by auto
  qed
qed

lemma dotdots_before: "dotdots_first (out @ ''..'' # es) \<Longrightarrow> set out \<subseteq> {''..''}"
  by (induction out) (auto split: if_splits)

lemma clean_elems_clean:
  "clean_list r out \<Longrightarrow> \<forall>e \<in> set xs. CHR ''/'' \<notin> set e \<Longrightarrow> clean_list r (clean_elems r out xs)"
proof (induction xs arbitrary: out)
  case Nil
  then show ?case by simp
next
  case (Cons e xs)
  have rest: "\<forall>e \<in> set xs. CHR ''/'' \<notin> set e"
    using Cons.prems(2) by simp
  have pop: "clean_list r (butlast out)"
    using Cons.prems(1)
    by (auto simp: clean_list_def dotdots_first_butlast dest: in_set_butlastD)
  have up: "clean_list r (out @ [''..''])" if "\<not> r" "out = [] \<or> last out = ''..''"
    using Cons.prems(1) that by (auto simp: clean_list_def dotdots_first_dotdot)
  have push: "clean_list r (out @ [e])" if "e \<noteq> []" "e \<noteq> ''.''" "e \<noteq> ''..''"
    using Cons.prems that by (auto simp: clean_list_def dotdots_first_snoc)
  show ?case
    using Cons.IH [OF Cons.prems(1) rest] Cons.IH [OF pop rest] Cons.IH [OF up rest]
      Cons.IH [OF push rest]
    by auto
qed

lemma clean_elems_fixed: "clean_list r (out @ es) \<Longrightarrow> clean_elems r out es = out @ es"
proof (induction es arbitrary: out)
  case Nil
  then show ?case by simp
next
  case (Cons e es)
  have e: "e \<noteq> []" "e \<noteq> ''.''"
    using Cons.prems by (auto simp: clean_list_def)
  have next_step: "clean_elems r (out @ [e]) es = (out @ [e]) @ es"
    using Cons.IH [of "out @ [e]"] Cons.prems by simp
  show ?case
  proof (cases "e = ''..''")
    case True
    then have "set out \<subseteq> {''..''}" and "\<not> r"
      using Cons.prems dotdots_before [of out es] by (auto simp: clean_list_def)
    then have "\<not> (out \<noteq> [] \<and> last out \<noteq> ''..'')"
      using last_in_set by fastforce
    then show ?thesis
      using True \<open>\<not> r\<close> next_step by auto
  next
    case False
    then show ?thesis
      using e next_step by simp
  qed
qed

lemma elements_clean: "clean_list (fst (elements x)) (snd (elements x))"
  using clean_elems_clean [of "fst (elements x)" "[]" "split_on CHR ''/'' x"]
  by (auto simp: elements_def clean_list_def Let_def dest: split_on_no_sep)

lemma elements_Clean: "elements (Clean x) = elements x"
proof (cases x)
  case Nil
  then show ?thesis by (simp add: Clean_def elements_def)
next
  case (Cons c cs)
  define r where "r = (c = CHR ''/'')"
  define es where "es = clean_elems r [] (split_on CHR ''/'' x)"
  have el: "elements x = (r, es)"
    using Cons by (simp add: elements_def r_def es_def)
  have cl: "clean_list r es"
    using elements_clean [of x] el by simp
  have fixed: "clean_elems r [] es = es"
    using clean_elems_fixed [of r "[]" es] cl by simp
  have nosep: "\<forall>e \<in> set es. CHR ''/'' \<notin> set e"
    using cl by (simp add: clean_list_def)
  have split: "es \<noteq> [] \<Longrightarrow> split_on CHR ''/'' (join_with ''/'' es) = es"
    using split_on_join [of es "CHR ''/''"] nosep by simp
  show ?thesis
  proof (cases r)
    case True
    have c: "Clean x = CHR ''/'' # join_with ''/'' es"
      using Cons True by (simp add: Clean_def r_def es_def)
    show ?thesis
    proof (cases "es = []")
      case True
      then show ?thesis using c el \<open>r\<close> by (simp add: elements_def)
    next
      case False
      then show ?thesis
        using c el \<open>r\<close> split fixed by (simp add: elements_def)
    qed
  next
    case False
    show ?thesis
    proof (cases "es = []")
      case True
      then have "Clean x = ''.''"
        using Cons False by (simp add: Clean_def r_def es_def)
      then show ?thesis
        using el True False by (simp add: elements_def)
    next
      case nonempty: False
      then have hd_ok: "hd es \<noteq> [] \<and> CHR ''/'' \<notin> set (hd es)"
        using cl by (cases es) (auto simp: clean_list_def)
      then have j: "join_with ''/'' es \<noteq> [] \<and> hd (join_with ''/'' es) = hd (hd es)"
        using join_with_hd [OF nonempty] by blast
      then have notroot: "hd (join_with ''/'' es) \<noteq> CHR ''/''"
        using hd_ok by (metis hd_in_set)
      have "Clean x = join_with ''/'' es"
        using Cons False j by (simp add: Clean_def r_def es_def)
      then show ?thesis
        using el False j notroot split [OF nonempty] fixed by (simp add: elements_def)
    qed
  qed
qed

lemma elements_Join:
  assumes "dir \<noteq> []" and "plain_name name"
  shows "elements (Join [dir, name]) = (fst (elements dir), snd (elements dir) @ [name])"
proof -
  have "Join [dir, name] = Clean (dir @ CHR ''/'' # name)"
    using assms(1) by (simp add: Join.simps)
  then have "elements (Join [dir, name]) = elements (dir @ CHR ''/'' # name)"
    by (simp add: elements_Clean)
  also have "\<dots> = (fst (elements dir), snd (elements dir) @ [name])"
    using assms
    by (simp add: elements_def split_on_append split_on_none clean_elems_append plain_name_def
        Let_def)
  finally show ?thesis .
qed

lemma inside_Join: "dir \<noteq> [] \<Longrightarrow> plain_name name \<Longrightarrow> inside dir (Join [dir, name])"
  by (simp add: inside_def elements_Join)

subsection \<open>The create handler\<close>

lemma rollback_reported:
  "reported (rollback os dir err fs w cs) = multierr_Append (Some err) (RemoveAll_result os dir)"
  by (simp add: rollback_def os_RemoveAll_def Let_def split: option.splits)

lemma rollback_calls:
  "calls (rollback os dir err fs w cs)
     = cs @ [RemoveAll_call dir,
             HandleHTTPError_call (multierr_Append (Some err) (RemoveAll_result os dir))]"
  by (simp add: rollback_def os_RemoveAll_def Let_def split: option.splits)

lemma rollback_body:
  "body_after (rollback os dir err fs w cs)
     = HandleHTTPError (multierr_Append (Some err) (RemoveAll_result os dir)) w"
  by (simp add: rollback_def os_RemoveAll_def Let_def split: option.splits)

lemma rollback_fs:
  "RemoveAll_result os dir = None \<Longrightarrow> dir \<noteq> [] \<Longrightarrow> inside dir p
     \<Longrightarrow> fs_after (rollback os dir err fs w cs) p = None"
  by (auto simp: rollback_def os_RemoveAll_def RemoveAll_result_def Let_def
      split: if_splits option.splits)

lemma rollback_not_ok: "reported (rollback os dir err fs w cs) \<noteq> None"
  by (cases "RemoveAll_result os dir") (simp_all add: rollback_reported)

lemma handleCreate_failure:
  assumes "svc_CreateBackup h fs = (Inr (backupID, files), fs1)"
    and "OpenFile_result os (Join [svc_InternalBackupPath h backupID, dfn]) = Some err
         \<or> (OpenFile_result os (Join [svc_InternalBackupPath h backupID, dfn]) = None
            \<and> snd (kv_Backup h) = Some err)
         \<or> (OpenFile_result os (Join [svc_InternalBackupPath h backupID, dfn]) = None
            \<and> snd (kv_Backup h) = None \<and> Write_fault os = Some err)"
  shows "\<exists>fs' cs. handleCreate h os dfn fs w
                    = rollback os (svc_InternalBackupPath h backupID) err fs' w cs"
  using assms
  by (auto simp: handleCreate_def os_OpenFile_def Let_def split: option.splits intro!: exI)

lemma handleCreate_success:
  assumes "reported (handleCreate h os dfn fs w) = None"
  shows "\<exists>backupID files fs1 fs3 cs.
           svc_CreateBackup h fs = (Inr (backupID, files), fs1)
           \<and> handleCreate h os dfn fs w =
               \<lparr>reported = None, manifest = Some \<lparr>ID = backupID, Files = files @ [dfn]\<rparr>,
                fs_after = fs3,
                body_after = w @ [Document (encode_backup \<lparr>ID = backupID, Files = files @ [dfn]\<rparr>)],
                calls = cs\<rparr>"
  using assms
  by (auto simp: handleCreate_def os_OpenFile_def Let_def rollback_not_ok
      split: option.splits sum.splits prod.splits)

text \<open>
  C1. In handleCreate, when the backup has been allocated and a later step fails (opening
  the metadata file, the metadata snapshot, or encoding the manifest to the response)
  with an error, the handler calls RemoveAll on the backup directory and hands
  HandleHTTPError the aggregate of the error and the result of the removal: the error
  alone when the removal returns nil, the aggregate of both causes when the removal
  fails, so a failed removal is never dropped. When the removal of the directory returns
  nil, nothing is left inside the directory, however its path is written; in particular
  the metadata file that the handler opened there is gone. (The backup directory exists,
  so its path is not empty: the empty path names no directory, and RemoveAll returns nil
  for it without removing anything.)
\<close>

theorem handleCreate_rollback:
  assumes "svc_CreateBackup h fs = (Inr (backupID, files), fs1)"
    and "OpenFile_result os (Join [svc_InternalBackupPath h backupID, dfn]) = Some err
         \<or> (OpenFile_result os (Join [svc_InternalBackupPath h backupID, dfn]) = None
            \<and> snd (kv_Backup h) = Some err)
         \<or> (OpenFile_result os (Join [svc_InternalBackupPath h backupID, dfn]) = None
            \<and> snd (kv_Backup h) = None \<and> Write_fault os = Some err)"
  shows "RemoveAll_call (svc_InternalBackupPath h backupID)
           \<in> set (calls (handleCreate h os dfn fs w))
    \<and> last (calls (handleCreate h os dfn fs w))
        = HandleHTTPError_call (reported (handleCreate h os dfn fs w))
    \<and> body_after (handleCreate h os dfn fs w)
        = HandleHTTPError (reported (handleCreate h os dfn fs w)) w
    \<and> reported (handleCreate h os dfn fs w)
        = multierr_Append (Some err) (RemoveAll_result os (svc_InternalBackupPath h backupID))
    \<and> (RemoveAll_result os (svc_InternalBackupPath h backupID) = None \<longrightarrow>
          reported (handleCreate h os dfn fs w) = Some err)
    \<and> (\<forall>rerr. RemoveAll_result os (svc_InternalBackupPath h backupID) = Some rerr \<longrightarrow>
          reported (handleCreate h os dfn fs w)
            = Some (multiError (errors_of err @ errors_of rerr)))
    \<and> (RemoveAll_result os (svc_InternalBackupPath h backupID) = None \<longrightarrow>
        svc_InternalBackupPath h backupID \<noteq> [] \<longrightarrow>
          (\<forall>p. inside (svc_InternalBackupPath h backupID) p \<longrightarrow>
                fs_after (handleCreate h os dfn fs w) p = None)
          \<and> (plain_name dfn \<longrightarrow>
                fs_after (handleCreate h os dfn fs w)
                  (Join [svc_InternalBackupPath h backupID, dfn]) = None))"
proof -
  obtain fs' cs where
    eq: "handleCreate h os dfn fs w = rollback os (svc_InternalBackupPath h backupID) err fs' w cs"
    using handleCreate_failure [OF assms] by blast
  show ?thesis
    unfolding eq
    by (auto simp: rollback_reported rollback_calls rollback_body rollback_fs inside_Join)
qed

theorem handleCreate_rollback_witness:
  "reported (handleCreate failing_snapshot stuck_os ''influxd.bolt'' Map.empty [])
     = Some (multiError [Failure ''snapshot'', Failure ''directory busy''])
   \<and> RemoveAll_call ''/backups/1/''
       \<in> set (calls (handleCreate failing_snapshot stuck_os ''influxd.bolt'' Map.empty []))
   \<and> reported (handleCreate failing_snapshot working_os ''influxd.bolt'' Map.empty [])
     = Some (Single (Failure ''snapshot''))
   \<and> fs_after (handleCreate failing_snapshot working_os ''influxd.bolt'' Map.empty [])
        ''/backups/1/000000001.s1'' = None
   \<and> fs_after (handleCreate failing_snapshot working_os ''influxd.bolt'' Map.empty [])
        ''/backups/1/influxd.bolt'' = None"
  using handleCreate_rollback [of failing_snapshot Map.empty 1 "[''000000001.s1'']"
        "Map.empty(''/backups/1/000000001.s1'' \<mapsto> [1, 2, 3])" stuck_os "''influxd.bolt''"
        "Single (Failure ''snapshot'')" "[]"]
    handleCreate_rollback [of failing_snapshot Map.empty 1 "[''000000001.s1'']"
        "Map.empty(''/backups/1/000000001.s1'' \<mapsto> [1, 2, 3])" working_os "''influxd.bolt''"
        "Single (Failure ''snapshot'')" "[]"]
  by (simp add: failing_snapshot_def example_handler_def stuck_os_def working_os_def
      Sprint_def decimal.simps inside_def elements_def Join.simps Clean_def plain_name_def
      OpenFile_result_def RemoveAll_result_def endsWithDot_def undeletable_def)

text \<open>
  C6. When the allocation (BackupService.CreateBackup) fails in handleCreate, the handler
  reports that error and does nothing else: HandleHTTPError is its only other call, so
  no directory is removed and no file is opened, and the file system is as the failed
  allocation left it.
\<close>

theorem handleCreate_allocation_failure:
  assumes "svc_CreateBackup h fs = (Inl err, fs1)"
  shows "handleCreate h os dfn fs w =
           \<lparr>reported = Some err, manifest = None, fs_after = fs1, body_after = w @ [HTTPError err],
            calls = [CreateBackup_call, HandleHTTPError_call (Some err)]\<rparr>
         \<and> (\<forall>p. RemoveAll_call p \<notin> set (calls (handleCreate h os dfn fs w))
                \<and> OpenFile_call p \<notin> set (calls (handleCreate h os dfn fs w)))"
  using assms by (simp add: handleCreate_def HandleHTTPError_def)

theorem handleCreate_allocation_failure_witness:
  "handleCreate failing_allocation stuck_os ''influxd.bolt'' Map.empty [] =
     \<lparr>reported = Some (Single (Failure ''engine closed'')), manifest = None, fs_after = Map.empty,
      body_after = [HTTPError (Single (Failure ''engine closed''))],
      calls = [CreateBackup_call, HandleHTTPError_call (Some (Single (Failure ''engine closed'')))]\<rparr>"
  using handleCreate_allocation_failure [of failing_allocation Map.empty
        "Single (Failure ''engine closed'')" Map.empty stuck_os "''influxd.bolt''" "[]"]
  by (simp add: failing_allocation_def example_handler_def)

text \<open>
  C2, as the code has it. For every successful create request, the Files list of the
  manifest is the shard file names of the storage engine followed by the reserved
  metadata file name: it is not empty, its last element is the reserved name, and the
  reserved name occurs in it once more than among the shard file names, so exactly once
  when no shard file has that name.
\<close>

theorem handleCreate_manifest_files:
  assumes "reported (handleCreate h os dfn fs w) = None"
  shows "\<exists>backupID files fs1.
           svc_CreateBackup h fs = (Inr (backupID, files), fs1)
           \<and> manifest (handleCreate h os dfn fs w) = Some \<lparr>ID = backupID, Files = files @ [dfn]\<rparr>
           \<and> files @ [dfn] \<noteq> []
           \<and> last (files @ [dfn]) = dfn
           \<and> count_list (files @ [dfn]) dfn = Suc (count_list files dfn)
           \<and> (dfn \<notin> set files \<longrightarrow> count_list (files @ [dfn]) dfn = 1)"
proof -
  obtain backupID files fs1 fs3 cs where
    "svc_CreateBackup h fs = (Inr (backupID, files), fs1)"
    "handleCreate h os dfn fs w =
       \<lparr>reported = None, manifest = Some \<lparr>ID = backupID, Files = files @ [dfn]\<rparr>,
        fs_after = fs3,
        body_after = w @ [Document (encode_backup \<lparr>ID = backupID, Files = files @ [dfn]\<rparr>)],
        calls = cs\<rparr>"
    using handleCreate_success [OF assms] by blast
  then show ?thesis
    by (auto simp: count_list_0_iff)
qed

theorem handleCreate_manifest_files_witness:
  "reported (handleCreate example_handler working_os ''influxd.bolt'' Map.empty []) = None
   \<and> manifest (handleCreate example_handler working_os ''influxd.bolt'' Map.empty [])
       = Some \<lparr>ID = 1, Files = [''000000001.s1'', ''influxd.bolt'']\<rparr>"
  using handleCreate_manifest_files [of example_handler working_os "''influxd.bolt''" Map.empty "[]"]
  by (simp add: handleCreate_def example_handler_def working_os_def os_OpenFile_def OpenFile_result_def Let_def Join.simps Clean_def Sprint_def
      decimal.simps)

text \<open>
  C2, as the claim states it, fails: when the engine returns a shard file named like the
  metadata file, the request succeeds and the manifest lists that name twice.
\<close>

theorem handleCreate_manifest_files_counterexample:
  "reported (handleCreate meta_named_shard working_os ''influxd.bolt'' Map.empty []) = None
   \<and> manifest (handleCreate meta_named_shard working_os ''influxd.bolt'' Map.empty [])
       = Some \<lparr>ID = 1, Files = [''influxd.bolt'', ''influxd.bolt'']\<rparr>
   \<and> count_list [''influxd.bolt'', ''influxd.bolt''] ''influxd.bolt'' = 2"
  by (simp add: handleCreate_def meta_named_shard_def example_handler_def working_os_def
      os_OpenFile_def OpenFile_result_def Let_def Join.simps Clean_def Sprint_def
      decimal.simps)

text \<open>
  C7, as the code has it. For every successful create request, the response body is one
  JSON object; its field \<open>files\<close> is present and lists the manifest's file names, and
  its field \<open>id\<close> is present exactly when the backup id is not zero (the field is
  tagged \<open>omitempty\<close>).
\<close>

theorem handleCreate_response_fields:
  assumes "reported (handleCreate h os dfn fs w) = None"
  shows "\<exists>backupID files fs1 doc.
           svc_CreateBackup h fs = (Inr (backupID, files), fs1)
           \<and> body_after (handleCreate h os dfn fs w) = w @ [Document doc]
           \<and> json_field doc ''files'' = Some (JArr (map JStr (files @ [dfn])))
           \<and> json_field doc ''id'' = (if backupID = 0 then None else Some (JNum backupID))"
proof -
  obtain backupID files fs1 fs3 cs where
    "svc_CreateBackup h fs = (Inr (backupID, files), fs1)"
    "handleCreate h os dfn fs w =
       \<lparr>reported = None, manifest = Some \<lparr>ID = backupID, Files = files @ [dfn]\<rparr>,
        fs_after = fs3,
        body_after = w @ [Document (encode_backup \<lparr>ID = backupID, Files = files @ [dfn]\<rparr>)],
        calls = cs\<rparr>"
    using handleCreate_success [OF assms] by blast
  then show ?thesis
    by (simp add: encode_backup_def)
qed

theorem handleCreate_response_fields_witness:
  "reported (handleCreate example_handler working_os ''influxd.bolt'' Map.empty []) = None
   \<and> body_after (handleCreate example_handler working_os ''influxd.bolt'' Map.empty [])
       = [Document (JObj [(''id'', JNum 1),
                          (''files'', JArr [JStr ''000000001.s1'', JStr ''influxd.bolt''])])]"
  using handleCreate_response_fields [of example_handler working_os "''influxd.bolt''" Map.empty "[]"]
  by (simp add: handleCreate_def example_handler_def working_os_def os_OpenFile_def
      OpenFile_result_def encode_backup_def Let_def Join.simps Clean_def Sprint_def decimal.simps)

text \<open>
  C7, as the claim states it, fails: for a backup with id 0 the request succeeds and the
  response object has no field \<open>id\<close>.
\<close>

theorem handleCreate_response_fields_counterexample:
  "reported (handleCreate zero_id_handler working_os ''influxd.bolt'' Map.empty []) = None
   \<and> body_after (handleCreate zero_id_handler working_os ''influxd.bolt'' Map.empty [])
       = [Document (JObj [(''files'', JArr [JStr ''influxd.bolt''])])]
   \<and> json_field (JObj [(''files'', JArr [JStr ''influxd.bolt''])]) ''id'' = None"
  by (simp add: handleCreate_def zero_id_handler_def example_handler_def working_os_def
      os_OpenFile_def OpenFile_result_def encode_backup_def Let_def Join.simps Clean_def
      Sprint_def decimal.simps)

subsection \<open>The fetch handler\<close>

lemma parse_digits_syntax:
  "\<not> list_all is_digit s \<Longrightarrow> \<exists>e. parse_digits n s = Inl e"
  by (induction s arbitrary: n) (auto simp: Let_def)

lemma Atoi_syntax:
  assumes "\<not> decimal_integer s"
  shows "\<exists>e. Atoi s = Inl (NumError ''Atoi'' s e)"
proof (cases s)
  case Nil
  then show ?thesis by (simp add: Atoi_def)
next
  case (Cons c cs)
  define ds where "ds = (if c = CHR ''-'' \<or> c = CHR ''+'' then cs else s)"
  have "ds = [] \<or> \<not> list_all is_digit ds"
    using assms Cons by (auto simp: decimal_integer_def ds_def Let_def split: if_splits)
  then have "ds = [] \<or> (\<exists>e. parse_digits 0 ds = Inl e)"
    using parse_digits_syntax by blast
  then show ?thesis
    using Cons by (auto simp: Atoi_def ds_def Let_def)
qed

text \<open>
  C9. For every fetch request whose backup_id parameter is not a decimal integer, Atoi
  fails, handleFetchFile hands that error to HandleHTTPError, which is its only call:
  FetchBackupFile is never invoked, and the response holds nothing but the error report.
\<close>

theorem handleFetchFile_bad_id:
  assumes "\<not> decimal_integer (ByName params ''backup_id'')"
  shows "\<exists>c. Atoi (ByName params ''backup_id'') = Inl c
           \<and> handleFetchFile h params fs w =
               \<lparr>reported = Some (Single c), manifest = None, fs_after = fs,
                body_after = w @ [HTTPError (Single c)],
                calls = [HandleHTTPError_call (Some (Single c))]\<rparr>
           \<and> (\<forall>backupID backupFile.
                 FetchBackupFile_call backupID backupFile \<notin> set (calls (handleFetchFile h params fs w)))"
  using Atoi_syntax [OF assms]
  by (auto simp: handleFetchFile_def HandleHTTPError_def)

theorem handleFetchFile_bad_id_witness:
  "handleFetchFile example_handler example_params Map.empty [] =
     \<lparr>reported = Some (Single (NumError ''Atoi'' ''12a'' ErrSyntax)), manifest = None,
      fs_after = Map.empty,
      body_after = [HTTPError (Single (NumError ''Atoi'' ''12a'' ErrSyntax))],
      calls = [HandleHTTPError_call (Some (Single (NumError ''Atoi'' ''12a'' ErrSyntax)))]\<rparr>"
  using handleFetchFile_bad_id [of example_params example_handler Map.empty "[]"]
  by (simp add: example_params_def decimal_integer_def is_digit_def Atoi_def)

subsection \<open>The client\<close>

lemma Write_all:
  "Write p s = (length p, None, s') \<Longrightarrow> sink_bytes s' = sink_bytes s @ p"
  by (auto simp: Write_def split: option.splits if_splits)

lemma concat_chunks: "concat (chunks k bs) = bs"
proof (induction k bs rule: chunks.induct)
  case (1 k bs)
  then show ?case
    by (subst chunks.simps) auto
qed

lemma copy_loop_success:
  "copy_loop n src dst = (None, dst')
     \<Longrightarrow> failure src = None \<and> sink_bytes dst' = sink_bytes dst @ concat (segments src)"
proof (induction "remaining src" arbitrary: src dst rule: less_induct)
  case less
  have n: "n \<noteq> 0"
    using less.prems by (subst (asm) copy_loop.simps) (auto split: if_splits)
  show ?case
  proof (cases "segments src")
    case Nil
    then show ?thesis
      using less.prems n
      by (subst (asm) copy_loop.simps) (auto simp: Read_def split: option.splits)
  next
    case (Cons sg rest)
    define src' where "src' = src\<lparr>segments := (if drop n sg = [] then rest else drop n sg # rest)\<rparr>"
    have rd: "Read n src = (take n sg, None, src')"
      by (simp add: Read_def Cons src'_def)
    have smaller: "remaining src' < remaining src"
      using Read_remaining [OF _ rd] n by simp
    have cat: "take n sg @ concat (segments src') = concat (segments src)"
      by (simp add: src'_def Cons)
    have same: "failure src' = failure src"
      by (simp add: src'_def)
    show ?thesis
    proof (cases "take n sg = []")
      case True
      then have "copy_loop n src' dst = (None, dst')"
        using less.prems n rd by (subst (asm) copy_loop.simps) simp
      then have "failure src' = None \<and> sink_bytes dst' = sink_bytes dst @ concat (segments src')"
        using less.hyps [OF smaller] by blast
      then show ?thesis
        using cat True same by simp
    next
      case False
      obtain nw ew dst1 where wr: "Write (take n sg) dst = (nw, ew, dst1)"
        by (cases "Write (take n sg) dst") auto
      have ok: "ew = None \<and> nw = length (take n sg) \<and> copy_loop n src' dst1 = (None, dst')"
        using less.prems n rd False wr
        by (subst (asm) copy_loop.simps) (auto split: if_splits)
      then have "failure src' = None \<and> sink_bytes dst' = sink_bytes dst1 @ concat (segments src')"
        using less.hyps [OF smaller] by blast
      moreover have "sink_bytes dst1 = sink_bytes dst @ take n sg"
        using wr ok Write_all by blast
      ultimately show ?thesis
        using cat same by (metis append.assoc)
    qed
  qed
qed

lemma copy_loop_unbounded:
  "0 < n \<Longrightarrow> room dst = None \<Longrightarrow> failure src = None
     \<Longrightarrow> copy_loop n src dst = (None, dst\<lparr>sink_bytes := sink_bytes dst @ concat (segments src)\<rparr>)"
proof (induction "remaining src" arbitrary: src dst rule: less_induct)
  case less
  show ?case
  proof (cases "segments src")
    case Nil
    then show ?thesis
      using less.prems
      by (subst copy_loop.simps) (simp add: Read_def)
  next
    case (Cons sg rest)
    define src' where "src' = src\<lparr>segments := (if drop n sg = [] then rest else drop n sg # rest)\<rparr>"
    define dst1 where "dst1 = dst\<lparr>sink_bytes := sink_bytes dst @ take n sg\<rparr>"
    have rd: "Read n src = (take n sg, None, src')"
      by (simp add: Read_def Cons src'_def)
    have smaller: "remaining src' < remaining src"
      using Read_remaining [OF less.prems(1) rd] .
    have cat: "take n sg @ concat (segments src') = concat (segments src)"
      by (simp add: src'_def Cons)
    have wr: "Write (take n sg) dst = (length (take n sg), None, dst1)"
      using less.prems(2) by (simp add: Write_def dst1_def)
    have rec: "copy_loop n src' dst1
                 = (None, dst1\<lparr>sink_bytes := sink_bytes dst1 @ concat (segments src')\<rparr>)"
      using less.hyps [OF smaller less.prems(1)] less.prems(2,3)
      by (simp add: dst1_def src'_def)
    have step: "copy_loop n src dst = copy_loop n src' dst1"
    proof (cases "take n sg = []")
      case True
      then have "dst1 = dst" by (simp add: dst1_def)
      then show ?thesis
        using less.prems(1) rd True by (subst copy_loop.simps) simp
    next
      case False
      then show ?thesis
        using less.prems(1) rd wr by (subst copy_loop.simps) simp
    qed
    show ?thesis
      using step rec cat by (simp add: dst1_def)
  qed
qed


lemma FetchBackupFile_success:
  assumes "FetchBackupFile env s ctx backupID backupFile w = ((None, w'), sent)"
  shows "\<exists>u hc req resp.
           url_Parse env (Addr s) = Inr u
           \<and> Path (req_URL req) = composeBackupFilePath backupID backupFile
           \<and> sent = [(hc, req)] \<and> Do env hc req = Inr resp \<and> CheckError resp = None
           \<and> copy_loop (1024 * 1024) (resp_Body resp) w = (None, w')"
  using assms
  by (auto simp: FetchBackupFile_def NewURL_def http_NewRequest_def SetToken_def Let_def
      io_CopyBuffer_def split: sum.splits option.splits)

lemma FetchBackupFile_serves_file:
  assumes "Do env = backup_remote stored k"
    and "url_Parse env (Addr s) = Inr u"
    and "NewRequest_fault env ''GET'' (u\<lparr>Path := composeBackupFilePath backupID backupFile\<rparr>) = None"
    and "stored (composeBackupFilePath backupID backupFile) = Some bs"
    and "room w = None"
  shows "fst (FetchBackupFile env s ctx backupID backupFile w)
           = (None, w\<lparr>sink_bytes := sink_bytes w @ bs\<rparr>)"
  using assms
  by (simp add: FetchBackupFile_def NewURL_def http_NewRequest_def SetToken_def Let_def
      backup_remote_def CheckError_def io_CopyBuffer_def copy_loop_unbounded concat_chunks)

text \<open>
  C4. A successful FetchBackupFile has sent one request, got a response whose body
  ended well, and has appended to the sink exactly the bytes of that body (the file as
  the remote streams it, of any length, the empty one included), whatever the segments in
  which they arrived and however they compare to the buffer of 1 MiB. The same holds of
  the copy loop for a buffer of any size.
\<close>

theorem FetchBackupFile_roundtrip:
  assumes "FetchBackupFile env s ctx backupID backupFile w = ((None, w'), sent)"
  shows "(\<exists>hc req resp. sent = [(hc, req)] \<and> Do env hc req = Inr resp
            \<and> Path (req_URL req) = composeBackupFilePath backupID backupFile
            \<and> failure (resp_Body resp) = None
            \<and> sink_bytes w' = sink_bytes w @ concat (segments (resp_Body resp)))
         \<and> (\<forall>n src dst dst'. io_CopyBuffer dst src n = (None, dst') \<longrightarrow>
               sink_bytes dst' = sink_bytes dst @ concat (segments src))"
proof -
  obtain u hc req resp where
    path: "Path (req_URL req) = composeBackupFilePath backupID backupFile"
    and sent: "sent = [(hc, req)]" and resp: "Do env hc req = Inr resp"
    and copy: "copy_loop (1024 * 1024) (resp_Body resp) w = (None, w')"
    using FetchBackupFile_success [OF assms] by blast
  have bytes: "failure (resp_Body resp) = None
               \<and> sink_bytes w' = sink_bytes w @ concat (segments (resp_Body resp))"
    using copy_loop_success [OF copy] .
  have "\<forall>n src dst dst'. io_CopyBuffer dst src n = (None, dst') \<longrightarrow>
          sink_bytes dst' = sink_bytes dst @ concat (segments src)"
    using copy_loop_success by (simp add: io_CopyBuffer_def)
  then show ?thesis
    using sent resp path bytes by blast
qed

lemma example_path:
  "composeBackupFilePath 1 ''influxd.bolt'' = ''/api/v2/backup/1/file/influxd.bolt''"
  by (simp add: composeBackupFilePath_def backupPath_def Sprint_def decimal.simps Join.simps
      Clean_def)

lemma missing_path:
  "composeBackupFilePath 2 ''influxd.bolt'' = ''/api/v2/backup/2/file/influxd.bolt''"
  by (simp add: composeBackupFilePath_def backupPath_def Sprint_def decimal.simps Join.simps
      Clean_def)

lemma example_fetch:
  "FetchBackupFile example_env example_service Background 1 ''influxd.bolt'' empty_sink =
     ((None, \<lparr>sink_bytes = [7, 7, 9], room = None, silent = False\<rparr>),
      [(\<lparr>cl_Scheme = ''http'', cl_InsecureSkipVerify = False, Timeout = 3600000000000\<rparr>,
        \<lparr>Method = ''GET'',
         req_URL = \<lparr>Scheme = ''http'', Host = ''localhost:9999'',
                    Path = ''/api/v2/backup/1/file/influxd.bolt''\<rparr>,
         Credential = Some ''secret'', req_Context = Background\<rparr>)])"
  by (simp add: FetchBackupFile_def example_env_def example_service_def empty_sink_def
      NewURL_def http_NewRequest_def SetToken_def NewClient_def httpClientTimeout_def Hour_def
      Minute_def Second_def Millisecond_def Microsecond_def Nanosecond_def example_path
      backup_remote_def example_files_def CheckError_def io_CopyBuffer_def
      copy_loop_unbounded concat_chunks)

theorem FetchBackupFile_roundtrip_witness:
  "sink_bytes (snd (fst (FetchBackupFile example_env example_service Background 1
                           ''influxd.bolt'' empty_sink))) = [7, 7, 9]"
  using FetchBackupFile_roundtrip [of example_env example_service Background 1 "''influxd.bolt''"
        empty_sink "\<lparr>sink_bytes = [7, 7, 9], room = None, silent = False\<rparr>" _ ]
  by (simp add: example_fetch)

text \<open>
  C5. Whatever the network answers: when the reply to the request is one that CheckError
  rejects, FetchBackupFile returns that error and the sink is as it was, so no byte of
  the reply's body is written before the failure is detected; for a reply with status
  404 the error is the not-found error. In front of a remote where no file is stored at
  the path composed from the backup id and the file name (its reply carries an error
  message as body), FetchBackupFile fails and leaves the sink as it was, and once the
  request can be built the error it returns is the not-found error.
\<close>

theorem FetchBackupFile_not_found:
  "(\<forall>hc req resp err.
      snd (FetchBackupFile env s ctx backupID backupFile w) = [(hc, req)] \<longrightarrow>
      Do env hc req = Inr resp \<longrightarrow> CheckError resp = Some err \<longrightarrow>
        fst (FetchBackupFile env s ctx backupID backupFile w) = (Some err, w)
        \<and> (StatusCode resp = 404 \<longrightarrow> not_found (Some err)))
   \<and> (\<forall>stored k.
        Do env = backup_remote stored k \<longrightarrow>
        stored (composeBackupFilePath backupID backupFile) = None \<longrightarrow>
          snd (fst (FetchBackupFile env s ctx backupID backupFile w)) = w
          \<and> fst (fst (FetchBackupFile env s ctx backupID backupFile w)) \<noteq> None
          \<and> (\<forall>u. url_Parse env (Addr s) = Inr u \<longrightarrow>
                NewRequest_fault env ''GET''
                  (u\<lparr>Path := composeBackupFilePath backupID backupFile\<rparr>) = None \<longrightarrow>
                not_found (fst (fst (FetchBackupFile env s ctx backupID backupFile w)))))"
proof -
  have reply: "fst (FetchBackupFile env s ctx backupID backupFile w) = (Some err, w)
               \<and> (StatusCode resp = 404 \<longrightarrow> not_found (Some err))"
    if "snd (FetchBackupFile env s ctx backupID backupFile w) = [(hc, req)]"
      and "Do env hc req = Inr resp" and "CheckError resp = Some err" for hc req resp err
    using that
    by (auto simp: FetchBackupFile_def NewURL_def http_NewRequest_def Let_def
        CheckError_def not_found_def split: sum.splits option.splits if_splits)
  have remote: "snd (fst (FetchBackupFile env s ctx backupID backupFile w)) = w
          \<and> fst (fst (FetchBackupFile env s ctx backupID backupFile w)) \<noteq> None
          \<and> (\<forall>u. url_Parse env (Addr s) = Inr u \<longrightarrow>
                NewRequest_fault env ''GET''
                  (u\<lparr>Path := composeBackupFilePath backupID backupFile\<rparr>) = None \<longrightarrow>
                not_found (fst (fst (FetchBackupFile env s ctx backupID backupFile w))))"
    if "Do env = backup_remote stored k"
      and "stored (composeBackupFilePath backupID backupFile) = None" for stored k
    using that
    by (auto simp: FetchBackupFile_def NewURL_def http_NewRequest_def SetToken_def Let_def
        backup_remote_def CheckError_def not_found_def split: sum.splits option.splits)
  show ?thesis
    using reply remote by blast
qed

theorem FetchBackupFile_not_found_witness:
  "fst (FetchBackupFile example_env example_service Background 2 ''influxd.bolt'' empty_sink)
     = (Some (Single (StatusError 404)), empty_sink)
   \<and> not_found (Some (Single (StatusError 404)))
   \<and> Do example_env
        \<lparr>cl_Scheme = ''http'', cl_InsecureSkipVerify = False, Timeout = 3600000000000\<rparr>
        \<lparr>Method = ''GET'',
         req_URL = \<lparr>Scheme = ''http'', Host = ''localhost:9999'',
                    Path = ''/api/v2/backup/2/file/influxd.bolt''\<rparr>,
         Credential = Some ''secret'', req_Context = Background\<rparr>
       = Inr \<lparr>StatusCode = 404,
              resp_Body = \<lparr>segments = [[110, 111], [116, 32], [102, 111], [117, 110], [100]],
                            failure = None\<rparr>\<rparr>"
  using FetchBackupFile_not_found [of example_env example_service Background 2 "''influxd.bolt''"
        empty_sink]
  by (simp add: FetchBackupFile_def example_env_def example_service_def
      NewURL_def http_NewRequest_def SetToken_def NewClient_def missing_path
      backup_remote_def example_files_def CheckError_def not_found_def not_found_message_def
      chunks.simps)

text \<open>
  C8. Every request that CreateBackup and FetchBackupFile hand to the network carries
  the configured token as its credential, and the client that sends it has the timeout
  httpClientTimeout, which is one hour: 3600 seconds of 1000000000 nanoseconds.
\<close>

theorem client_requests:
  "(\<forall>(hc, req) \<in> set (snd (CreateBackup env s ctx)).
       Credential req = Some (Token s) \<and> Timeout hc = httpClientTimeout)
   \<and> (\<forall>(hc, req) \<in> set (snd (FetchBackupFile env s ctx backupID backupFile w)).
       Credential req = Some (Token s) \<and> Timeout hc = httpClientTimeout)
   \<and> httpClientTimeout = 3600 * Second \<and> Second = 1000000000 * Nanosecond"
  by (auto simp: CreateBackup_def FetchBackupFile_def NewURL_def http_NewRequest_def SetToken_def
      Let_def httpClientTimeout_def Hour_def Minute_def Second_def Millisecond_def
      Microsecond_def split: sum.splits option.splits)

lemma example_create:
  "snd (CreateBackup example_env example_service Background) =
     [(\<lparr>cl_Scheme = ''http'', cl_InsecureSkipVerify = False, Timeout = 3600000000000\<rparr>,
       \<lparr>Method = ''POST'',
        req_URL = \<lparr>Scheme = ''http'', Host = ''localhost:9999'', Path = ''/api/v2/backup''\<rparr>,
        Credential = Some ''secret'', req_Context = Span Background\<rparr>)]"
  by (simp add: CreateBackup_def example_env_def example_service_def
      NewURL_def http_NewRequest_def SetToken_def NewClient_def httpClientTimeout_def Hour_def
      Minute_def Second_def Millisecond_def Microsecond_def Nanosecond_def backupPath_def
      backup_remote_def example_files_def CheckError_def Let_def)

theorem client_requests_witness:
  "list_all (\<lambda>(hc, req). Credential req = Some ''secret'' \<and> Timeout hc = 3600000000000)
     (snd (CreateBackup example_env example_service Background))
   \<and> list_all (\<lambda>(hc, req). Credential req = Some ''secret'' \<and> Timeout hc = 3600000000000)
       (snd (FetchBackupFile example_env example_service Background 1 ''influxd.bolt'' empty_sink))
   \<and> length (snd (CreateBackup example_env example_service Background)) = 1
   \<and> length (snd (FetchBackupFile example_env example_service Background 1 ''influxd.bolt''
                     empty_sink)) = 1"
  using client_requests [of example_env example_service Background 1 "''influxd.bolt''" empty_sink]
  by (simp add: example_fetch example_create)

end
